theory Spec2Isabelle
  imports Complex_Main "HOL-Library.Word" "HOL-Library.Multiset"
begin

section \<open>Values shared by the route handlers\<close>

text \<open>
  The handlers of \<^verbatim>\<open>src/app/api\<close> are asynchronous functions over a MongoDB
  database. They are embedded as pure functions: the database is an explicit argument
  that is returned updated, every \<^verbatim>\<open>await\<close> that can reject gets its outcome from
  an environment record, and a \<^verbatim>\<open>Response\<close> is a record of its status, of the
  headers the code sets itself, and of its body. JavaScript strings that the code only
  passes on, compares with the empty string or tests for an ASCII prefix are modelled as
  \<^typ>\<open>string\<close>; the location text, which the page trims, is a list of UTF-16 code
  units.
\<close>

type_synonym bytes = "8 word list"

type_synonym jsString = "16 word list"

text \<open>The outcome of an awaited promise.\<close>

datatype 'a await = Resolved 'a | Rejected string

record 'b response =
  status :: nat
  headers :: "(string \<times> string) list"
  body :: 'b

text \<open>\<^verbatim>\<open>Response.ok\<close>: the status is in the range 200..299.\<close>

definition ok :: "('b, 'm) response_scheme \<Rightarrow> bool" where
  "ok res = (200 \<le> status res \<and> status res \<le> 299)"

definition header :: "('b, 'm) response_scheme \<Rightarrow> string \<Rightarrow> string option" where
  "header res k = map_of (headers res) k"

text \<open>\<^verbatim>\<open>String.prototype.startsWith\<close>.\<close>

definition startsWith :: "string \<Rightarrow> string \<Rightarrow> bool" where
  "startsWith s p = (take (length p) s = p)"

text \<open>
  \<^verbatim>\<open>x || d\<close> on a string property that may be absent: \<^verbatim>\<open>undefined\<close> and the
  empty string are both falsy.
\<close>

definition or_default :: "string option \<Rightarrow> string \<Rightarrow> string" where
  "or_default x d = (case x of None \<Rightarrow> d | Some s \<Rightarrow> if s = [] then d else s)"

section \<open>The GridFS bucket\<close>

text \<open>
  A browser \<^verbatim>\<open>File\<close>: its name, its MIME type and its content. \<^verbatim>\<open>file.size\<close>
  and \<^verbatim>\<open>buffer.length\<close> are both the number of bytes of the content.
\<close>

record File =
  file_name :: string
  file_type :: string
  file_data :: bytes

definition file_size :: "File \<Rightarrow> nat" where
  "file_size f = length (file_data f)"

text \<open>
  The \<^verbatim>\<open>metadata\<close> object of a document of \<^verbatim>\<open>fs.files\<close>. The upload route
  writes \<^verbatim>\<open>uploadedAt\<close>, \<^verbatim>\<open>originalName\<close>, \<^verbatim>\<open>size\<close> and \<^verbatim>\<open>compressed\<close>; the
  image route also reads \<^verbatim>\<open>originalContentType\<close>, which is therefore an optional
  property.
\<close>

record metadata =
  uploadedAt :: nat
  originalName :: string
  md_size :: nat
  compressed :: bool
  originalContentType :: "string option"

text \<open>
  A stored file: the document of \<^verbatim>\<open>fs.files\<close> together with the concatenation of
  its chunks.
\<close>

record fileDoc =
  filename :: string
  contentType :: "string option"
  metadata :: "metadata option"
  chunks :: bytes

text \<open>
  An \<^verbatim>\<open>ObjectId\<close> is kept as its \<^verbatim>\<open>toString()\<close>: 24 lower-case hexadecimal
  digits. The constructor \<^verbatim>\<open>new ObjectId(s)\<close> of the driver (bson 5 and later) throws
  unless the string \<open>s\<close> has 24 hexadecimal digits, which it reads without regard to
  case.
\<close>

type_synonym objectId = string

definition isHex :: "char \<Rightarrow> bool" where
  "isHex c = (c \<in> set ''0123456789abcdefABCDEF'')"

definition hexLower :: "char \<Rightarrow> char" where
  "hexLower c =
     (if c = CHR ''A'' then CHR ''a'' else if c = CHR ''B'' then CHR ''b''
      else if c = CHR ''C'' then CHR ''c'' else if c = CHR ''D'' then CHR ''d''
      else if c = CHR ''E'' then CHR ''e'' else if c = CHR ''F'' then CHR ''f'' else c)"

definition ObjectId :: "string \<Rightarrow> objectId option" where
  "ObjectId s = (if length s = 24 \<and> list_all isHex s then Some (map hexLower s) else None)"

text \<open>The collection \<^verbatim>\<open>fs.files\<close> with the chunks of each file, keyed by \<^verbatim>\<open>_id\<close>.\<close>

type_synonym gridfs = "objectId \<rightharpoonup> fileDoc"

section \<open>The upload route: \<^verbatim>\<open>POST /api/upload\<close>\<close>

text \<open>
  What the handler gets from outside: the identifier the driver generates for the
  upload stream, the clock, and how the race between the upload stream and the
  30 second timer ends.
\<close>

datatype upload_outcome = Finished | StreamError | UploadTimeout

record upload_env =
  newId :: objectId
  now :: nat
  outcome :: upload_outcome

datatype upload_body = FileId string | ErrorBody string

text \<open>
  A value of a form field (\<^verbatim>\<open>FormDataEntryValue\<close>): a string or a file. The cast
  \<^verbatim>\<open>as File\<close> of the handler does nothing at run time.
\<close>

datatype FormDataEntryValue = StringValue string | FileValue File

definition maxSize :: nat where
  "maxSize = 5 * 1024 * 1024"

definition shouldCompress :: "bytes \<Rightarrow> bool" where
  "shouldCompress buffer = (length buffer > 1024 * 1024)"

text \<open>
  The document that \<^verbatim>\<open>bucket.openUploadStream(file.name, {contentType, metadata})\<close>
  writes once \<^verbatim>\<open>finalStream\<close> has been piped into it. \<open>gzip\<close> is zlib's
  \<^verbatim>\<open>createGzip()\<close> transform, a parameter of the model.
\<close>

definition uploadDoc :: "(bytes \<Rightarrow> bytes) \<Rightarrow> upload_env \<Rightarrow> File \<Rightarrow> fileDoc" where
  "uploadDoc gzip env f =
     (let buffer = file_data f in
      \<lparr>filename = file_name f,
       contentType = Some (if shouldCompress buffer then ''application/gzip'' else file_type f),
       metadata = Some \<lparr>uploadedAt = now env, originalName = file_name f,
                        md_size = file_size f, compressed = shouldCompress buffer,
                        originalContentType = None\<rparr>,
       chunks = (if shouldCompress buffer then gzip buffer else buffer)\<rparr>)"

text \<open>
  The handler. Its argument is the outcome of \<^verbatim>\<open>await req.formData()\<close>, which
  rejects when the body is not a form, followed by \<^verbatim>\<open>formData.get("file")\<close>:
  \<open>None\<close> is \<^verbatim>\<open>null\<close>, for a form with no such field. On a string \<^verbatim>\<open>!file\<close>
  holds for the empty one only; for any other string \<^verbatim>\<open>file.size\<close> is
  \<^verbatim>\<open>undefined\<close>, which is not above the limit, and \<^verbatim>\<open>file.type.startsWith\<close>
  throws a \<^verbatim>\<open>TypeError\<close>. Every exception ends in the 500 of the \<^verbatim>\<open>catch\<close>.
  GridFS writes the document of \<^verbatim>\<open>fs.files\<close> when the upload stream finishes, so
  when the stream fails or the timer wins the race the bucket holds no new file as the
  handler answers.
\<close>

definition uploadFailed :: "upload_body response" where
  "uploadFailed = \<lparr>status = 500, headers = [], body = ErrorBody ''Upload failed''\<rparr>"

definition POST_upload ::
  "(bytes \<Rightarrow> bytes) \<Rightarrow> upload_env \<Rightarrow> gridfs \<Rightarrow> FormDataEntryValue option await
     \<Rightarrow> upload_body response \<times> gridfs" where
  "POST_upload gzip env bucket formData =
     (case formData of
        Rejected e \<Rightarrow> (uploadFailed, bucket)
      | Resolved None \<Rightarrow>
          (\<lparr>status = 400, headers = [], body = ErrorBody ''No file uploaded''\<rparr>, bucket)
      | Resolved (Some (StringValue s)) \<Rightarrow>
          if s = [] then
            (\<lparr>status = 400, headers = [], body = ErrorBody ''No file uploaded''\<rparr>, bucket)
          else (uploadFailed, bucket)
      | Resolved (Some (FileValue f)) \<Rightarrow>
          if file_size f > maxSize then
            (\<lparr>status = 400, headers = [],
              body = ErrorBody ''File too large. Maximum size is 5MB''\<rparr>, bucket)
          else if \<not> startsWith (file_type f) ''image/'' then
            (\<lparr>status = 400, headers = [],
              body = ErrorBody ''Only image files are allowed''\<rparr>, bucket)
          else
            (case outcome env of
               Finished \<Rightarrow>
                 (\<lparr>status = 200, headers = [], body = FileId (newId env)\<rparr>,
                  bucket(newId env \<mapsto> uploadDoc gzip env f))
             | _ \<Rightarrow> (uploadFailed, bucket)))"

section \<open>The image route: \<^verbatim>\<open>GET /api/image/[id]\<close>\<close>

text \<open>
  \<^verbatim>\<open>pathname.match(/\/api\/image\/([^\/]+)/)?.[1]\<close>: the leftmost place where
  \<^verbatim>\<open>/api/image/\<close> is followed by a character other than a slash; the group is the
  longest run of such characters there.
\<close>

fun idMatch :: "string \<Rightarrow> string option" where
  "idMatch [] = None"
| "idMatch (c # cs) =
     (let seg = takeWhile (\<lambda>x. x \<noteq> CHR ''/'') (drop 11 (c # cs)) in
      if take 11 (c # cs) = ''/api/image/'' \<and> seg \<noteq> [] then Some seg else idMatch cs)"

datatype image_body = Message string | Bytes bytes | BrokenStream

definition cacheControl :: "string \<times> string" where
  "cacheControl = (''Cache-Control'', ''public, max-age=31536000'')"

definition notFound :: "image_body response" where
  "notFound = \<lparr>status = 404, headers = [], body = Message ''Image not found''\<rparr>"

text \<open>\<^verbatim>\<open>fileDoc.metadata?.compressed\<close>.\<close>

definition isCompressed :: "fileDoc \<Rightarrow> bool" where
  "isCompressed d = (case metadata d of None \<Rightarrow> False | Some m \<Rightarrow> compressed m)"

text \<open>
  The handler. \<open>gunzip\<close> is zlib's \<^verbatim>\<open>createGunzip()\<close> transform, \<open>None\<close> when
  the input is not a gzip stream; \<open>reachable\<close> says whether \<^verbatim>\<open>files.findOne\<close>
  resolves. \<^verbatim>\<open>new ObjectId(id)\<close> and \<^verbatim>\<open>findOne\<close> are inside the \<^verbatim>\<open>try\<close>, so
  their exceptions end in the 404 of the \<^verbatim>\<open>catch\<close>.
  \<^verbatim>\<open>bucket.openDownloadStream\<close> only builds a stream, which looks the file up when
  it is first read: for an identifier with no file the handler has by then returned its
  \<^verbatim>\<open>Response\<close>, with the default status 200 and the default content type, and the
  body breaks while it is streamed.
\<close>

definition GET_image ::
  "(bytes \<Rightarrow> bytes option) \<Rightarrow> bool \<Rightarrow> gridfs \<Rightarrow> string \<Rightarrow> image_body response" where
  "GET_image gunzip reachable bucket pathname =
     (case idMatch pathname of
        None \<Rightarrow> \<lparr>status = 400, headers = [], body = Message ''Invalid image ID''\<rparr>
      | Some i \<Rightarrow>
          (case ObjectId i of
             None \<Rightarrow> notFound
           | Some oid \<Rightarrow>
               if \<not> reachable then notFound
               else
                 (case bucket oid of
                    None \<Rightarrow>
                      \<lparr>status = 200,
                       headers = [(''Content-Type'', ''image/jpeg''), cacheControl],
                       body = BrokenStream\<rparr>
                  | Some fileDoc \<Rightarrow>
                      if isCompressed fileDoc then
                        \<lparr>status = 200,
                         headers =
                           [(''Content-Type'',
                             or_default (Option.bind (metadata fileDoc) originalContentType)
                               ''image/jpeg''),
                            cacheControl],
                         body = (case gunzip (chunks fileDoc) of
                                   None \<Rightarrow> BrokenStream | Some b \<Rightarrow> Bytes b)\<rparr>
                      else
                        \<lparr>status = 200,
                         headers =
                           [(''Content-Type'', or_default (contentType fileDoc) ''image/jpeg''),
                            cacheControl],
                         body = Bytes (chunks fileDoc)\<rparr>)))"

section \<open>Listings: the \<^verbatim>\<open>Property\<close> model and \<^verbatim>\<open>/api/properties\<close>\<close>

text \<open>
  The JSON object the page posts, with the fields of \<^verbatim>\<open>PropertySchema\<close>. Numbers are
  \<^typ>\<open>real\<close>: the code only passes them on and compares coordinates with zero.
  \<^verbatim>\<open>createdAt\<close> is a time in milliseconds.
\<close>

record propertyData =
  images :: "string list"
  name :: string
  location :: jsString
  description :: string
  lat :: real
  lng :: real
  createdAt :: nat
  price :: real
  beds :: real
  baths :: real
  area :: real

text \<open>A listing document: the fields above and its \<^verbatim>\<open>_id\<close>.\<close>

record Property = propertyData +
  ident :: string

text \<open>
  What the handlers get from outside: whether \<^verbatim>\<open>MONGODB_URI\<close> is set, whether a
  connection is cached or can be made, whether a query on the collection resolves, the
  \<^verbatim>\<open>_id\<close> Mongoose gives a new document, and the successive readings of
  \<^verbatim>\<open>Date.now()\<close>.
\<close>

record db_env =
  uriSet :: bool
  connects :: bool
  queryOk :: bool
  createId :: objectId
  clock :: "nat \<Rightarrow> nat"

text \<open>\<^verbatim>\<open>dbConnect\<close> of \<^verbatim>\<open>utils/db.ts\<close>: it throws when the URI is missing or the
  connection promise rejects.\<close>

definition dbConnect :: "db_env \<Rightarrow> unit await" where
  "dbConnect env =
     (if \<not> uriSet env then Rejected ''MONGODB_URI environment variable is not set''
      else if connects env then Resolved ()
      else Rejected ''Database connection failed'')"

text \<open>
  A request and its body, which is a stream: \<^verbatim>\<open>req.json()\<close> consumes it, and a
  second call rejects with a \<^verbatim>\<open>TypeError\<close>.
\<close>

record 'a request =
  payload :: 'a
  bodyUsed :: bool

definition req_json :: "'a request \<Rightarrow> 'a await \<times> 'a request" where
  "req_json req =
     (if bodyUsed req then (Rejected ''Body is unusable'', req)
      else (Resolved (payload req), req\<lparr>bodyUsed := True\<rparr>))"

text \<open>
  The validation of \<^verbatim>\<open>PropertySchema\<close>: \<^verbatim>\<open>name\<close>, \<^verbatim>\<open>location\<close> and
  \<^verbatim>\<open>description\<close> are required strings, and Mongoose's \<^verbatim>\<open>required\<close> rejects the
  empty string. The required numbers are always present in a \<^typ>\<open>propertyData\<close>.
\<close>

definition PropertySchema :: "propertyData \<Rightarrow> bool" where
  "PropertySchema d = (name d \<noteq> [] \<and> location d \<noteq> [] \<and> description d \<noteq> [])"

definition withId :: "string \<Rightarrow> nat \<Rightarrow> propertyData \<Rightarrow> Property" where
  "withId i t d =
     \<lparr>images = images d, name = name d, location = location d, description = description d,
      lat = lat d, lng = lng d, createdAt = t, price = price d, beds = beds d,
      baths = baths d, area = area d, ident = i\<rparr>"

text \<open>\<^verbatim>\<open>Property.create(data)\<close> on the collection, kept in insertion order.\<close>

definition Property_create ::
  "db_env \<Rightarrow> Property list \<Rightarrow> propertyData \<Rightarrow> (Property \<times> Property list) await" where
  "Property_create env coll d =
     (if \<not> PropertySchema d then Rejected ''ValidationError''
      else if \<not> queryOk env then Rejected ''MongoServerError''
      else (let doc = withId (createId env) (createdAt d) d in Resolved (doc, coll @ [doc])))"

text \<open>\<^verbatim>\<open>Property.find().sort({ createdAt: -1 })\<close>.\<close>

definition Property_find_sorted :: "db_env \<Rightarrow> Property list \<Rightarrow> Property list await" where
  "Property_find_sorted env coll =
     (if queryOk env then Resolved (sort_key (\<lambda>p. - int (createdAt p)) coll)
      else Rejected ''MongoServerError'')"

definition GET_properties :: "db_env \<Rightarrow> Property list \<Rightarrow> Property list response" where
  "GET_properties env coll =
     (case dbConnect env of
        Rejected e \<Rightarrow> \<lparr>status = 200, headers = [], body = []\<rparr>
      | Resolved u \<Rightarrow>
          (case Property_find_sorted env coll of
             Rejected e \<Rightarrow> \<lparr>status = 200, headers = [], body = []\<rparr>
           | Resolved properties \<Rightarrow> \<lparr>status = 200, headers = [], body = properties\<rparr>))"

text \<open>The decimal digits of a number, as \<^verbatim>\<open>"mock_" + Date.now()\<close> appends them.\<close>

fun decimal :: "nat \<Rightarrow> string" where
  "decimal n =
     (if n < 10 then [''0123456789'' ! n]
      else decimal (n div 10) @ [''0123456789'' ! (n mod 10)])"

declare decimal.simps [simp del]

text \<open>\<^verbatim>\<open>{ _id: "mock_" + Date.now(), ...data, createdAt: Date.now() }\<close>.\<close>

definition mockProperty :: "db_env \<Rightarrow> propertyData \<Rightarrow> Property" where
  "mockProperty env d = withId (''mock_'' @ decimal (clock env 0)) (clock env 1) d"

text \<open>
  The \<^verbatim>\<open>try\<close> block of \<^verbatim>\<open>POST\<close>: the document created, or the rejection; with
  the request as the block leaves it, and the collection.
\<close>

definition POST_properties_try ::
  "db_env \<Rightarrow> Property list \<Rightarrow> propertyData request
     \<Rightarrow> Property await \<times> propertyData request \<times> Property list" where
  "POST_properties_try env coll req =
     (case dbConnect env of
        Rejected e \<Rightarrow> (Rejected e, req, coll)
      | Resolved u \<Rightarrow>
          (case req_json req of
             (Rejected e, req') \<Rightarrow> (Rejected e, req', coll)
           | (Resolved d, req') \<Rightarrow>
               (case Property_create env coll d of
                  Rejected e \<Rightarrow> (Rejected e, req', coll)
                | Resolved (doc, coll') \<Rightarrow> (Resolved doc, req', coll'))))"

text \<open>
  The handler: the \<^verbatim>\<open>catch\<close> block reads the body again before it builds the mock
  listing. A rejection inside the \<^verbatim>\<open>catch\<close> leaves the handler, so its result is
  an awaited response.
\<close>

definition POST_properties ::
  "db_env \<Rightarrow> Property list \<Rightarrow> propertyData request
     \<Rightarrow> Property response await \<times> Property list" where
  "POST_properties env coll req =
     (case POST_properties_try env coll req of
        (Resolved property, req', coll') \<Rightarrow>
          (Resolved \<lparr>status = 200, headers = [], body = property\<rparr>, coll')
      | (Rejected error, req', coll') \<Rightarrow>
          (case req_json req' of
             (Rejected e, req'') \<Rightarrow> (Rejected e, coll')
           | (Resolved d, req'') \<Rightarrow>
               (Resolved \<lparr>status = 200, headers = [], body = mockProperty env d\<rparr>, coll')))"

text \<open>
  What the page's \<^verbatim>\<open>fetch\<close> sees of a route handler: Next.js answers 500, with no
  JSON body, for a handler whose promise rejects.
\<close>

definition routeResponse :: "'b response await \<Rightarrow> 'b option response" where
  "routeResponse r =
     (case r of
        Rejected e \<Rightarrow> \<lparr>status = 500, headers = [], body = None\<rparr>
      | Resolved res \<Rightarrow> \<lparr>status = status res, headers = headers res, body = Some (body res)\<rparr>)"

section \<open>The page: \<^verbatim>\<open>handleSubmit\<close>\<close>

text \<open>
  The form state of the page. A numeric input holds a number or the empty string
  (\<open>None\<close>). The six file inputs assign \<^verbatim>\<open>files[index]\<close>, so the array can have
  empty slots.
\<close>

record FormData =
  form_images :: "string list"
  form_name :: string
  form_location :: jsString
  form_description :: string
  form_files :: "File option list"
  form_price :: "real option"
  form_beds :: "real option"
  form_baths :: "real option"
  form_area :: "real option"

record page_state =
  form :: FormData
  selectedLocation :: "real \<times> real"
  locationName :: jsString

text \<open>\<^verbatim>\<open>Number(x)\<close> on the value of a numeric input: the empty string becomes 0.\<close>

definition Number :: "real option \<Rightarrow> real" where
  "Number x = (case x of None \<Rightarrow> 0 | Some v \<Rightarrow> v)"

text \<open>
  \<^verbatim>\<open>String.prototype.trim\<close> removes the white space and the line terminators of
  ECMAScript from both ends: U+0009 to U+000D, U+0020, U+00A0, U+1680, U+2000 to U+200A,
  U+2028, U+2029, U+202F, U+205F, U+3000 and U+FEFF. All of them are single code units.
\<close>

definition isSpace :: "16 word \<Rightarrow> bool" where
  "isSpace c =
     ((0x0009 \<le> c \<and> c \<le> 0x000D) \<or> c = 0x0020 \<or> c = 0x00A0 \<or> c = 0x1680 \<or>
      (0x2000 \<le> c \<and> c \<le> 0x200A) \<or> c = 0x2028 \<or> c = 0x2029 \<or> c = 0x202F \<or>
      c = 0x205F \<or> c = 0x3000 \<or> c = 0xFEFF)"

definition trim :: "jsString \<Rightarrow> jsString" where
  "trim s = rev (dropWhile isSpace (rev (dropWhile isSpace s)))"

text \<open>
  The answers of the network: the reply of \<^verbatim>\<open>POST /api/upload\<close> to each file (its
  status, its status text and the \<^verbatim>\<open>fileId\<close> of its JSON), the result array of the
  geocoding search with \<^verbatim>\<open>Number(lat)\<close> and \<^verbatim>\<open>Number(lon)\<close> of each entry (an
  answer that is not an array has no \<^verbatim>\<open>length\<close> above 0 and counts as the empty
  array), the reply of \<^verbatim>\<open>POST /api/properties\<close>, the listings of the refresh, and
  the clock.
\<close>

record upload_reply =
  reply_status :: nat
  reply_statusText :: string
  reply_fileId :: string

record client_env =
  fetchUpload :: "File \<Rightarrow> upload_reply await"
  fetchGeocode :: "jsString \<Rightarrow> (real \<times> real) list await"
  fetchCreate :: "propertyData \<Rightarrow> Property option response await"
  fetchList :: "Property list await"
  dateNow :: nat

definition uploadToMongo :: "client_env \<Rightarrow> File \<Rightarrow> string await" where
  "uploadToMongo env f =
     (case fetchUpload env f of
        Rejected e \<Rightarrow> Rejected e
      | Resolved res \<Rightarrow>
          if \<not> (200 \<le> reply_status res \<and> reply_status res \<le> 299)
          then Rejected (''Upload failed: '' @ reply_statusText res)
          else Resolved (reply_fileId res))"

text \<open>
  \<^verbatim>\<open>Promise.all\<close>: the results in the order of the promises, or a rejection (here
  the first one in that order).
\<close>

fun promise_all :: "'a await list \<Rightarrow> 'a list await" where
  "promise_all [] = Resolved []"
| "promise_all (Rejected e # ps) = Rejected e"
| "promise_all (Resolved x # ps) =
     (case promise_all ps of Rejected e \<Rightarrow> Rejected e | Resolved xs \<Rightarrow> Resolved (x # xs))"

text \<open>
  \<^verbatim>\<open>form.files.map(file => file ? uploadToMongo(file) : null).filter(Boolean)\<close>,
  awaited together when the array is not empty.
\<close>

definition uploadImages :: "client_env \<Rightarrow> File option list \<Rightarrow> string list await" where
  "uploadImages env files =
     (if length files > 0
      then promise_all (map (uploadToMongo env) (List.map_filter (\<lambda>x. x) files))
      else Resolved [])"

definition placeholders :: "string list" where
  "placeholders = [''placeholder1'', ''placeholder2'', ''placeholder3'']"

text \<open>
  The block ``use selected location or geocode the location name'': the final values
  of \<^verbatim>\<open>lat\<close> and \<^verbatim>\<open>lon\<close>. The \<^verbatim>\<open>catch\<close> around the lookup only logs.
\<close>

definition resolveCoordinates :: "client_env \<Rightarrow> page_state \<Rightarrow> real \<times> real" where
  "resolveCoordinates env st =
     (let lat0 = fst (selectedLocation st); lon0 = snd (selectedLocation st) in
      if lat0 = 0 \<and> lon0 = 0 \<and> trim (form_location (form st)) \<noteq> [] then
        (case fetchGeocode env (form_location (form st)) of
           Rejected e \<Rightarrow> (lat0, lon0)
         | Resolved geoData \<Rightarrow>
             (case geoData of [] \<Rightarrow> (lat0, lon0) | g # gs \<Rightarrow> g))
      else (lat0, lon0))"

text \<open>
  What a submission leaves behind: the body of the request to \<^verbatim>\<open>/api/properties\<close>
  if one was sent, the listing the route answered, the refreshed listings passed to
  \<^verbatim>\<open>setProperties\<close>, and the error the \<^verbatim>\<open>catch\<close> alerts (the start of its
  message, without the status text and the response text that follow it).
\<close>

record submit_result =
  posted :: "propertyData option"
  propertyResult :: "Property option"
  refreshed :: "Property list option"
  alert :: "string option"

definition composeProperty :: "client_env \<Rightarrow> page_state \<Rightarrow> string list \<Rightarrow> propertyData" where
  "composeProperty env st ids =
     (let imageIds = (if length ids = 0 then placeholders else ids);
          (lat1, lon1) = resolveCoordinates env st
      in \<lparr>images = imageIds,
          name = form_name (form st),
          location = (if locationName st \<noteq> [] then locationName st else form_location (form st)),
          description = form_description (form st),
          lat = lat1, lng = lon1,
          createdAt = dateNow env,
          price = Number (form_price (form st)),
          beds = Number (form_beds (form st)),
          baths = Number (form_baths (form st)),
          area = Number (form_area (form st))\<rparr>)"

definition handleSubmit :: "client_env \<Rightarrow> page_state \<Rightarrow> submit_result" where
  "handleSubmit env st =
     (case uploadImages env (form_files (form st)) of
        Rejected e \<Rightarrow>
          \<lparr>posted = None, propertyResult = None, refreshed = None, alert = Some e\<rparr>
      | Resolved ids \<Rightarrow>
          (let propertyData = composeProperty env st ids in
           case fetchCreate env propertyData of
             Rejected e \<Rightarrow>
               \<lparr>posted = Some propertyData, propertyResult = None, refreshed = None,
                alert = Some e\<rparr>
           | Resolved propertyRes \<Rightarrow>
               if \<not> ok propertyRes then
                 \<lparr>posted = Some propertyData, propertyResult = None, refreshed = None,
                  alert = Some ''Failed to create property''\<rparr>
               else
                 (case body propertyRes of
                    None \<Rightarrow>
                      \<lparr>posted = Some propertyData, propertyResult = None, refreshed = None,
                       alert = Some ''Unexpected end of JSON input''\<rparr>
                  | Some created \<Rightarrow>
                      (case fetchList env of
                         Rejected e \<Rightarrow>
                           \<lparr>posted = Some propertyData, propertyResult = Some created,
                            refreshed = None, alert = Some e\<rparr>
                       | Resolved refreshedProperties \<Rightarrow>
                           \<lparr>posted = Some propertyData, propertyResult = Some created,
                            refreshed = Some refreshedProperties, alert = None\<rparr>))))"

text \<open>
  The page against the route of this repository: \<^verbatim>\<open>fetch("/api/properties", ...)\<close>
  answered by \<^verbatim>\<open>POST\<close> on a fresh request.
\<close>

definition createOnServer :: "db_env \<Rightarrow> Property list \<Rightarrow> propertyData \<Rightarrow> Property option response await" where
  "createOnServer denv coll d =
     Resolved (routeResponse (fst (POST_properties denv coll \<lparr>payload = d, bodyUsed = False\<rparr>)))"

section \<open>Sample inputs\<close>

text \<open>Concrete requests, files and environments on which the theorems below are run.\<close>

definition sampleEnv :: upload_env where
  "sampleEnv = \<lparr>newId = ''0123456789abcdef01234567'', now = 1700000000000, outcome = Finished\<rparr>"

definition largePng :: File where
  "largePng = \<lparr>file_name = ''house.png'', file_type = ''image/png'',
                file_data = replicate 1048577 0\<rparr>"

definition smallPng :: File where
  "smallPng = \<lparr>file_name = ''door.png'', file_type = ''image/png'', file_data = [137, 80, 78, 71]\<rparr>"

definition hugePng :: File where
  "hugePng = \<lparr>file_name = ''roof.png'', file_type = ''image/png'',
                file_data = replicate 5242881 0\<rparr>"

definition textFile :: File where
  "textFile = \<lparr>file_name = ''page.html'', file_type = ''text/html'', file_data = [60, 104, 49, 62]\<rparr>"

definition sampleGzip :: "bytes \<Rightarrow> bytes" where
  "sampleGzip b = 31 # 139 # b"

definition sampleGunzip :: "bytes \<Rightarrow> bytes option" where
  "sampleGunzip b = (case b of x # y # r \<Rightarrow> if x = 31 \<and> y = 139 then Some r else None | _ \<Rightarrow> None)"

definition downEnv :: db_env where
  "downEnv = \<lparr>uriSet = True, connects = False, queryOk = True,
               createId = ''65f0a1b2c3d4e5f601234567'', clock = (\<lambda>n. 1700000000000 + n)\<rparr>"

definition upEnv :: db_env where
  "upEnv = \<lparr>uriSet = True, connects = True, queryOk = True,
               createId = ''65f0a1b2c3d4e5f601234567'', clock = (\<lambda>n. 1700000000000 + n)\<rparr>"

definition ascii :: "string \<Rightarrow> jsString" where
  "ascii s = map (\<lambda>c. of_nat (of_char c)) s"

definition sampleListing :: "string \<Rightarrow> nat \<Rightarrow> Property" where
  "sampleListing i t =
     \<lparr>images = placeholders, name = ''Villa'', location = ascii ''Accra'', description = ''Sea view'',
      lat = 5.55, lng = -0.20, createdAt = t, price = 1000, beds = 3, baths = 2, area = 120,
      ident = i\<rparr>"

definition sampleForm :: FormData where
  "sampleForm = \<lparr>form_images = [], form_name = ''Villa'', form_location = [],
                  form_description = ''Sea view'', form_files = [],
                  form_price = Some 1000, form_beds = Some 3, form_baths = Some 2,
                  form_area = Some 120\<rparr>"

definition samplePage :: page_state where
  "samplePage = \<lparr>form = sampleForm, selectedLocation = (0, 0), locationName = []\<rparr>"

definition sampleClient :: "db_env \<Rightarrow> (real \<times> real) list await \<Rightarrow> client_env" where
  "sampleClient denv geo =
     \<lparr>fetchUpload = (\<lambda>f. Rejected ''Failed to fetch''),
      fetchGeocode = (\<lambda>q. geo),
      fetchCreate = createOnServer denv [],
      fetchList = Resolved [],
      dateNow = 1700000000000\<rparr>"

definition pickedPage :: page_state where
  "pickedPage = \<lparr>form = sampleForm\<lparr>form_location := ascii ''Kumasi''\<rparr>,
                  selectedLocation = (5.55, -0.20), locationName = ascii ''Osu, Accra''\<rparr>"

definition blankPage :: page_state where
  "blankPage = \<lparr>form = sampleForm\<lparr>form_location := [0x00A0, 0x3000]\<rparr>,
                 selectedLocation = (0, 0), locationName = []\<rparr>"

definition typedPage :: page_state where
  "typedPage = \<lparr>form = sampleForm\<lparr>form_location := ascii ''Kumasi''\<rparr>,
                 selectedLocation = (0, 0), locationName = []\<rparr>"

section \<open>Uploading and retrieving images\<close>

lemma upload_accepted:
  assumes "file_size f \<le> maxSize" and "startsWith (file_type f) ''image/''"
    and "outcome env = Finished"
  shows "POST_upload gzip env bucket (Resolved (Some (FileValue f))) =
           (\<lparr>status = 200, headers = [], body = FileId (newId env)\<rparr>,
            bucket(newId env \<mapsto> uploadDoc gzip env f))"
  using assms by (simp add: POST_upload_def)

lemma upload_status_200:
  assumes "POST_upload gzip env bucket formData = (res, bucket')" and "status res = 200"
  shows "\<exists>f. formData = Resolved (Some (FileValue f)) \<and> file_size f \<le> maxSize \<and> startsWith (file_type f) ''image/''
           \<and> outcome env = Finished \<and> body res = FileId (newId env)
           \<and> bucket' = bucket(newId env \<mapsto> uploadDoc gzip env f)"
  using assms
  by (auto simp: POST_upload_def uploadFailed_def
      split: await.splits option.splits FormDataEntryValue.splits if_splits upload_outcome.splits)

lemma sampleId: "ObjectId (newId sampleEnv) = Some (newId sampleEnv)"
  by (simp add: sampleEnv_def ObjectId_def isHex_def hexLower_def)

lemma large_upload:
  "POST_upload gz sampleEnv bucket (Resolved (Some (FileValue largePng))) =
     (\<lparr>status = 200, headers = [], body = FileId (newId sampleEnv)\<rparr>,
      bucket(newId sampleEnv \<mapsto> uploadDoc gz sampleEnv largePng))"
  by (rule upload_accepted)
     (simp_all add: largePng_def file_size_def maxSize_def startsWith_def sampleEnv_def)

lemma small_upload:
  "POST_upload gz sampleEnv bucket (Resolved (Some (FileValue smallPng))) =
     (\<lparr>status = 200, headers = [], body = FileId (newId sampleEnv)\<rparr>,
      bucket(newId sampleEnv \<mapsto> uploadDoc gz sampleEnv smallPng))"
  by (rule upload_accepted)
     (simp_all add: smallPng_def file_size_def maxSize_def startsWith_def sampleEnv_def)

lemma largePng_length: "length (file_data largePng) = 1048577"
  by (simp add: largePng_def)

lemma smallPng_length: "length (file_data smallPng) = 4"
  by (simp add: smallPng_def)

text \<open>
  Claim C4. A file that the upload route stores is stored through gzip, with the
  \<^verbatim>\<open>compressed\<close> flag of its metadata set, when it has more than 1048576 bytes;
  a file of at most 1048576 bytes is stored as it is, with the flag unset.
\<close>

theorem C4_compression_threshold:
  assumes "POST_upload gzip env bucket (Resolved (Some (FileValue f))) = (res, bucket')" and "status res = 200"
  shows "\<exists>doc md. bucket' (newId env) = Some doc \<and> metadata doc = Some md \<and>
           (if length (file_data f) > 1048576
            then chunks doc = gzip (file_data f) \<and> compressed md
            else chunks doc = file_data f \<and> \<not> compressed md)"
proof -
  from upload_status_200 [OF assms]
  have b: "bucket' = bucket(newId env \<mapsto> uploadDoc gzip env f)" by auto
  show ?thesis
    unfolding b by (simp add: uploadDoc_def shouldCompress_def Let_def)
qed

theorem C4_compression_threshold_witness:
  "(\<exists>doc md. snd (POST_upload sampleGzip sampleEnv Map.empty (Resolved (Some (FileValue largePng)))) (newId sampleEnv) = Some doc
       \<and> metadata doc = Some md \<and> chunks doc = sampleGzip (file_data largePng) \<and> compressed md) \<and>
   (\<exists>doc md. snd (POST_upload sampleGzip sampleEnv Map.empty (Resolved (Some (FileValue smallPng)))) (newId sampleEnv) = Some doc
       \<and> metadata doc = Some md \<and> chunks doc = file_data smallPng \<and> \<not> compressed md)"
proof
  note u = large_upload [of sampleGzip Map.empty]
  from C4_compression_threshold [OF u]
  show "\<exists>doc md. snd (POST_upload sampleGzip sampleEnv Map.empty (Resolved (Some (FileValue largePng)))) (newId sampleEnv) = Some doc
       \<and> metadata doc = Some md \<and> chunks doc = sampleGzip (file_data largePng) \<and> compressed md"
    unfolding u snd_conv by (simp add: largePng_length)
next
  note u = small_upload [of sampleGzip Map.empty]
  from C4_compression_threshold [OF u]
  show "\<exists>doc md. snd (POST_upload sampleGzip sampleEnv Map.empty (Resolved (Some (FileValue smallPng)))) (newId sampleEnv) = Some doc
       \<and> metadata doc = Some md \<and> chunks doc = file_data smallPng \<and> \<not> compressed md"
    unfolding u snd_conv by (simp add: smallPng_length)
qed

text \<open>
  Claim C5 says that every request with no file present is answered with status 400.
  The handler tests \<^verbatim>\<open>!file\<close> on a value it casts to \<^verbatim>\<open>File\<close>: a form whose
  \<^verbatim>\<open>file\<close> field is the text \<^verbatim>\<open>hello\<close> passes that test and the size test,
  \<^verbatim>\<open>file.type.startsWith\<close> throws, and the \<^verbatim>\<open>catch\<close> answers 500.
\<close>

theorem C5_text_field_counterexample:
  "status (fst (POST_upload sampleGzip sampleEnv Map.empty
      (Resolved (Some (StringValue ''hello''))))) = 500"
  by (simp add: POST_upload_def uploadFailed_def)

text \<open>
  Claim C5, amended. A request whose form has no \<^verbatim>\<open>file\<close> field or has the empty
  string there, or has a file of more than 5242880 bytes, or a file whose MIME type
  does not start with \<^verbatim>\<open>image/\<close>, is answered with status 400; a request whose
  \<^verbatim>\<open>file\<close> field is a string that is not empty, or whose body is not a form, is
  answered with status 500. In each of these cases the bucket is left as it was.
\<close>

theorem C5_upload_rejected:
  "((fileField = None \<or> fileField = Some (StringValue []) \<or>
     (\<exists>f. fileField = Some (FileValue f) \<and>
          (file_size f > 5242880 \<or> \<not> startsWith (file_type f) ''image/''))) \<longrightarrow>
      status (fst (POST_upload gzip env bucket (Resolved fileField))) = 400 \<and>
      snd (POST_upload gzip env bucket (Resolved fileField)) = bucket) \<and>
   ((\<exists>s. s \<noteq> [] \<and> fileField = Some (StringValue s)) \<longrightarrow>
      status (fst (POST_upload gzip env bucket (Resolved fileField))) = 500 \<and>
      snd (POST_upload gzip env bucket (Resolved fileField)) = bucket) \<and>
   status (fst (POST_upload gzip env bucket (Rejected e))) = 500 \<and>
   snd (POST_upload gzip env bucket (Rejected e)) = bucket"
  by (auto simp: POST_upload_def uploadFailed_def maxSize_def)

theorem C5_upload_rejected_witness:
  "status (fst (POST_upload sampleGzip sampleEnv Map.empty (Resolved None))) = 400 \<and>
   snd (POST_upload sampleGzip sampleEnv Map.empty (Resolved None)) = Map.empty \<and>
   status (fst (POST_upload sampleGzip sampleEnv Map.empty
      (Resolved (Some (StringValue []))))) = 400 \<and>
   snd (POST_upload sampleGzip sampleEnv Map.empty (Resolved (Some (StringValue [])))) = Map.empty \<and>
   status (fst (POST_upload sampleGzip sampleEnv Map.empty
      (Resolved (Some (FileValue hugePng))))) = 400 \<and>
   snd (POST_upload sampleGzip sampleEnv Map.empty (Resolved (Some (FileValue hugePng)))) = Map.empty \<and>
   status (fst (POST_upload sampleGzip sampleEnv Map.empty
      (Resolved (Some (FileValue textFile))))) = 400 \<and>
   snd (POST_upload sampleGzip sampleEnv Map.empty (Resolved (Some (FileValue textFile)))) = Map.empty \<and>
   status (fst (POST_upload sampleGzip sampleEnv Map.empty
      (Resolved (Some (StringValue ''hello''))))) = 500 \<and>
   snd (POST_upload sampleGzip sampleEnv Map.empty (Resolved (Some (StringValue ''hello'')))) = Map.empty \<and>
   status (fst (POST_upload sampleGzip sampleEnv Map.empty
      (Rejected ''Content-Type was not multipart/form-data''))) = 500 \<and>
   snd (POST_upload sampleGzip sampleEnv Map.empty
      (Rejected ''Content-Type was not multipart/form-data'')) = Map.empty"
proof -
  have h: "file_size hugePng > 5242880" by (simp add: hugePng_def file_size_def)
  have t: "\<not> startsWith (file_type textFile) ''image/''"
    by (simp add: textFile_def startsWith_def)
  note c = C5_upload_rejected [of _ sampleGzip sampleEnv Map.empty]
  from c [of None] have 1:
    "status (fst (POST_upload sampleGzip sampleEnv Map.empty (Resolved None))) = 400 \<and>
     snd (POST_upload sampleGzip sampleEnv Map.empty (Resolved None)) = Map.empty"
    by blast
  from c [of "Some (StringValue [])"] have 2:
    "status (fst (POST_upload sampleGzip sampleEnv Map.empty
        (Resolved (Some (StringValue []))))) = 400 \<and>
     snd (POST_upload sampleGzip sampleEnv Map.empty (Resolved (Some (StringValue [])))) = Map.empty"
    by blast
  from c [of "Some (FileValue hugePng)"] h have 3:
    "status (fst (POST_upload sampleGzip sampleEnv Map.empty
        (Resolved (Some (FileValue hugePng))))) = 400 \<and>
     snd (POST_upload sampleGzip sampleEnv Map.empty (Resolved (Some (FileValue hugePng)))) = Map.empty"
    by blast
  from c [of "Some (FileValue textFile)"] t have 4:
    "status (fst (POST_upload sampleGzip sampleEnv Map.empty
        (Resolved (Some (FileValue textFile))))) = 400 \<and>
     snd (POST_upload sampleGzip sampleEnv Map.empty (Resolved (Some (FileValue textFile)))) = Map.empty"
    by blast
  have n: "''hello'' \<noteq> []" by simp
  from c [of "Some (StringValue ''hello'')"] n have 5:
    "status (fst (POST_upload sampleGzip sampleEnv Map.empty
        (Resolved (Some (StringValue ''hello''))))) = 500 \<and>
     snd (POST_upload sampleGzip sampleEnv Map.empty (Resolved (Some (StringValue ''hello'')))) = Map.empty"
    by blast
  from c [of None "''Content-Type was not multipart/form-data''"] have 6:
    "status (fst (POST_upload sampleGzip sampleEnv Map.empty
        (Rejected ''Content-Type was not multipart/form-data''))) = 500 \<and>
     snd (POST_upload sampleGzip sampleEnv Map.empty
        (Rejected ''Content-Type was not multipart/form-data'')) = Map.empty"
    by blast
  from 1 2 3 4 5 6 show ?thesis by blast
qed

lemma takeWhile_hex: "list_all isHex s \<Longrightarrow> takeWhile (\<lambda>x. x \<noteq> CHR ''/'') s = s"
  by (induction s) (auto simp: isHex_def)

lemma idMatch_objectId:
  assumes "ObjectId i = Some i"
  shows "idMatch (''/api/image/'' @ i) = Some i"
proof -
  from assms have h: "length i = 24" "list_all isHex i"
    by (auto simp: ObjectId_def split: if_splits)
  then have "i \<noteq> []" by auto
  with h show ?thesis by (simp add: takeWhile_hex)
qed

lemma GET_image_stored:
  assumes "ObjectId i = Some i" and "bucket i = Some d"
  shows "GET_image gunzip True bucket (''/api/image/'' @ i) =
     (if isCompressed d then
        \<lparr>status = 200,
         headers = [(''Content-Type'',
              or_default (Option.bind (metadata d) originalContentType) ''image/jpeg''),
              cacheControl],
         body = (case gunzip (chunks d) of None \<Rightarrow> BrokenStream | Some b \<Rightarrow> Bytes b)\<rparr>
      else
        \<lparr>status = 200,
         headers = [(''Content-Type'', or_default (contentType d) ''image/jpeg''), cacheControl],
         body = Bytes (chunks d)\<rparr>)"
  using assms idMatch_objectId [OF assms(1)]
  by (simp add: GET_image_def del: idMatch.simps)

lemma GET_image_after_put:
  assumes "ObjectId i = Some i"
  shows "GET_image gunzip True (bucket(i \<mapsto> d)) (''/api/image/'' @ i) =
     (if isCompressed d then
        \<lparr>status = 200,
         headers = [(''Content-Type'',
              or_default (Option.bind (metadata d) originalContentType) ''image/jpeg''),
              cacheControl],
         body = (case gunzip (chunks d) of None \<Rightarrow> BrokenStream | Some b \<Rightarrow> Bytes b)\<rparr>
      else
        \<lparr>status = 200,
         headers = [(''Content-Type'', or_default (contentType d) ''image/jpeg''), cacheControl],
         body = Bytes (chunks d)\<rparr>)"
  by (rule GET_image_stored [of i "bucket(i \<mapsto> d)" d, OF assms]) simp

text \<open>
  Claim C10. For an uploaded file of more than 1 MiB the stored \<^verbatim>\<open>contentType\<close> is
  \<^verbatim>\<open>application/gzip\<close> and the metadata holds \<^verbatim>\<open>uploadedAt\<close>,
  \<^verbatim>\<open>originalName\<close>, \<^verbatim>\<open>size\<close> and \<^verbatim>\<open>compressed\<close> only, with no
  \<^verbatim>\<open>originalContentType\<close>; the image route then serves the object, in any bucket
  that still holds it, with \<^verbatim>\<open>Content-Type: image/jpeg\<close>, whatever the type of
  the file was.
\<close>

theorem C10_compressed_served_as_jpeg:
  assumes "POST_upload gzip env bucket (Resolved (Some (FileValue f))) = (res, bucket')" and "status res = 200"
    and "length (file_data f) > 1048576"
    and "ObjectId (newId env) = Some (newId env)"
    and "later (newId env) = bucket' (newId env)"
  shows "\<exists>doc. bucket' (newId env) = Some doc \<and>
           contentType doc = Some ''application/gzip'' \<and>
           metadata doc = Some \<lparr>uploadedAt = now env, originalName = file_name f,
                                 md_size = file_size f, compressed = True,
                                 originalContentType = None\<rparr> \<and>
           header (GET_image gunzip True later (''/api/image/'' @ newId env)) ''Content-Type''
             = Some ''image/jpeg''"
proof -
  from upload_status_200 [OF assms(1,2)]
  have b: "bucket' = bucket(newId env \<mapsto> uploadDoc gzip env f)" by auto
  have d: "later (newId env) = Some (uploadDoc gzip env f)"
    using assms(5) b by simp
  have c: "isCompressed (uploadDoc gzip env f)"
    using assms(3) by (simp add: isCompressed_def uploadDoc_def shouldCompress_def Let_def)
  show ?thesis
    unfolding GET_image_stored [of "newId env" later, OF assms(4) d]
    using c assms(3) b
    by (simp add: header_def uploadDoc_def shouldCompress_def Let_def or_default_def)
qed

theorem C10_compressed_served_as_jpeg_witness:
  "\<exists>doc. snd (POST_upload sampleGzip sampleEnv Map.empty (Resolved (Some (FileValue largePng)))) (newId sampleEnv) = Some doc \<and>
      contentType doc = Some ''application/gzip'' \<and>
      metadata doc = Some \<lparr>uploadedAt = 1700000000000, originalName = ''house.png'',
                            md_size = 1048577, compressed = True, originalContentType = None\<rparr> \<and>
      header (GET_image sampleGunzip True (snd (POST_upload sampleGzip sampleEnv Map.empty (Resolved (Some (FileValue largePng)))))
                (''/api/image/'' @ newId sampleEnv)) ''Content-Type'' = Some ''image/jpeg''"
proof -
  note u = large_upload [of sampleGzip Map.empty]
  have l: "1048576 < length (file_data largePng)" by (simp add: largePng_length)
  have v: "now sampleEnv = 1700000000000" "file_name largePng = ''house.png''"
    "file_size largePng = 1048577"
    by (simp_all add: sampleEnv_def largePng_def file_size_def)
  from C10_compressed_served_as_jpeg
    [of sampleGzip sampleEnv Map.empty largePng _ _
        "Map.empty(newId sampleEnv \<mapsto> uploadDoc sampleGzip sampleEnv largePng)" sampleGunzip,
      OF u _ l sampleId refl]
  show ?thesis
    unfolding u snd_conv v by simp
qed

text \<open>
  The parts of the round trip that hold: the bytes come back whenever gunzip inverts
  gzip on them, and a file of at most 1 MiB comes back with its own MIME type.
\<close>

lemma roundtrip_bytes:
  assumes "file_size f \<le> maxSize" and "startsWith (file_type f) ''image/''"
    and "outcome env = Finished" and "ObjectId (newId env) = Some (newId env)"
    and "gunzip (gzip (file_data f)) = Some (file_data f)"
  shows "body (GET_image gunzip True (snd (POST_upload gzip env bucket (Resolved (Some (FileValue f)))))
                 (''/api/image/'' @ newId env)) = Bytes (file_data f)"
  unfolding upload_accepted [OF assms(1-3)] snd_conv GET_image_after_put [OF assms(4)]
  using assms(5) by (simp add: isCompressed_def uploadDoc_def Let_def)

lemma roundtrip_type_uncompressed:
  assumes "file_size f \<le> maxSize" and "startsWith (file_type f) ''image/''"
    and "outcome env = Finished" and "ObjectId (newId env) = Some (newId env)"
    and "length (file_data f) \<le> 1048576"
  shows "header (GET_image gunzip True (snd (POST_upload gzip env bucket (Resolved (Some (FileValue f)))))
                 (''/api/image/'' @ newId env)) ''Content-Type'' = Some (file_type f)"
proof -
  from assms(2) have "file_type f \<noteq> []" by (auto simp: startsWith_def)
  then show ?thesis
    unfolding upload_accepted [OF assms(1-3)] snd_conv GET_image_after_put [OF assms(4)]
    using assms(5)
    by (simp add: isCompressed_def uploadDoc_def Let_def shouldCompress_def header_def or_default_def)
qed

text \<open>
  Claim C1 says that every accepted image comes back with its bytes and its original
  MIME type. The code does not do that for a compressed file: a PNG of 1048577 bytes is
  accepted and stored, and the image route serves it as \<^verbatim>\<open>image/jpeg\<close>, because
  the route reads \<^verbatim>\<open>metadata.originalContentType\<close>, which the upload never writes.
\<close>

theorem C1_large_png_comes_back_as_jpeg:
  "status (fst (POST_upload gzip sampleEnv Map.empty (Resolved (Some (FileValue largePng))))) = 200 \<and>
   body (fst (POST_upload gzip sampleEnv Map.empty (Resolved (Some (FileValue largePng))))) = FileId (newId sampleEnv) \<and>
   file_type largePng = ''image/png'' \<and>
   header (GET_image gunzip True (snd (POST_upload gzip sampleEnv Map.empty (Resolved (Some (FileValue largePng)))))
             (''/api/image/'' @ newId sampleEnv)) ''Content-Type'' = Some ''image/jpeg''"
proof -
  have c: "isCompressed (uploadDoc gzip sampleEnv largePng)"
    by (simp add: isCompressed_def uploadDoc_def shouldCompress_def largePng_length Let_def)
  have m: "Option.bind (metadata (uploadDoc gzip sampleEnv largePng)) originalContentType = None"
    by (simp add: uploadDoc_def Let_def)
  show ?thesis
    unfolding large_upload fst_conv snd_conv GET_image_after_put [OF sampleId]
    using c m by (simp add: header_def or_default_def largePng_def)
qed

text \<open>
  Claim C2 says that an invalid identifier is answered with status 400. The guard of the
  route is \<^verbatim>\<open>if (!id)\<close>: it answers 400 only when the path has no identifier. A
  segment that is no ObjectId, as \<^verbatim>\<open>xyz\<close>, makes the constructor throw, and the
  \<^verbatim>\<open>catch\<close> answers 404.
\<close>

theorem C2_invalid_id_counterexample:
  "idMatch ''/api/image/xyz'' = Some ''xyz'' \<and> ObjectId ''xyz'' = None \<and>
   status (GET_image sampleGunzip True Map.empty ''/api/image/xyz'') = 404"
  by (simp add: GET_image_def ObjectId_def notFound_def)

text \<open>
  An identifier that is well formed but has no file: the handler has no check of its
  own, and the stream it returns fails only when it is read.
\<close>

lemma GET_image_unknown_id:
  assumes "idMatch pathname = Some i" and "ObjectId i = Some oid" and "bucket oid = None"
  shows "GET_image gunzip True bucket pathname =
           \<lparr>status = 200, headers = [(''Content-Type'', ''image/jpeg''), cacheControl],
            body = BrokenStream\<rparr>"
  using assms by (simp add: GET_image_def)

text \<open>
  Claim C2, amended. The image route answers 400 when the path has no identifier
  segment, 404 when the segment is not the text of an ObjectId, and, when the
  identifier is that of a stored file and the database answers, 200 with
  \<^verbatim>\<open>Cache-Control: public, max-age=31536000\<close> and the bytes of the file, gunzipped
  when the file is flagged as compressed.
\<close>

theorem C2_image_route_statuses:
  "(idMatch pathname = None \<longrightarrow> status (GET_image gunzip reachable bucket pathname) = 400) \<and>
   (\<forall>i. idMatch pathname = Some i \<and> ObjectId i = None \<longrightarrow>
        status (GET_image gunzip reachable bucket pathname) = 404) \<and>
   (\<forall>i oid d. idMatch pathname = Some i \<and> ObjectId i = Some oid \<and> reachable \<and> bucket oid = Some d \<longrightarrow>
        status (GET_image gunzip reachable bucket pathname) = 200 \<and>
        header (GET_image gunzip reachable bucket pathname) ''Cache-Control''
          = Some ''public, max-age=31536000'' \<and>
        body (GET_image gunzip reachable bucket pathname) =
          (if isCompressed d
           then (case gunzip (chunks d) of None \<Rightarrow> BrokenStream | Some b \<Rightarrow> Bytes b)
           else Bytes (chunks d)))"
  by (auto simp: GET_image_def notFound_def header_def cacheControl_def)

theorem C2_image_route_statuses_witness:
  "idMatch ''/api/image/'' = None \<and>
   status (GET_image sampleGunzip True Map.empty ''/api/image/'') = 400 \<and>
   idMatch ''/api/image/xyz'' = Some ''xyz'' \<and> ObjectId ''xyz'' = None \<and>
   status (GET_image sampleGunzip True Map.empty ''/api/image/xyz'') = 404 \<and>
   status (GET_image sampleGunzip True
        (snd (POST_upload sampleGzip sampleEnv Map.empty (Resolved (Some (FileValue smallPng)))))
        (''/api/image/'' @ newId sampleEnv)) = 200 \<and>
   header (GET_image sampleGunzip True
        (snd (POST_upload sampleGzip sampleEnv Map.empty (Resolved (Some (FileValue smallPng)))))
        (''/api/image/'' @ newId sampleEnv)) ''Cache-Control'' = Some ''public, max-age=31536000'' \<and>
   body (GET_image sampleGunzip True
        (snd (POST_upload sampleGzip sampleEnv Map.empty (Resolved (Some (FileValue smallPng)))))
        (''/api/image/'' @ newId sampleEnv)) = Bytes (file_data smallPng)"
proof -
  have a: "idMatch ''/api/image/'' = None" by simp
  have b: "idMatch ''/api/image/xyz'' = Some ''xyz''" "ObjectId ''xyz'' = None"
    by (simp_all add: ObjectId_def)
  note m = idMatch_objectId [OF sampleId]
  have d: "(Map.empty(newId sampleEnv \<mapsto> uploadDoc sampleGzip sampleEnv smallPng)) (newId sampleEnv)
      = Some (uploadDoc sampleGzip sampleEnv smallPng)" by simp
  have c: "\<not> isCompressed (uploadDoc sampleGzip sampleEnv smallPng)"
    "chunks (uploadDoc sampleGzip sampleEnv smallPng) = file_data smallPng"
    by (simp_all add: isCompressed_def uploadDoc_def shouldCompress_def smallPng_length Let_def)
  from C2_image_route_statuses [of "''/api/image/''" sampleGunzip True Map.empty] a
  have 1: "status (GET_image sampleGunzip True Map.empty ''/api/image/'') = 400" by blast
  from C2_image_route_statuses [of "''/api/image/xyz''" sampleGunzip True Map.empty] b
  have 2: "status (GET_image sampleGunzip True Map.empty ''/api/image/xyz'') = 404" by blast
  from C2_image_route_statuses [of "''/api/image/'' @ newId sampleEnv" sampleGunzip True
      "Map.empty(newId sampleEnv \<mapsto> uploadDoc sampleGzip sampleEnv smallPng)"] m sampleId d
  have 3: "status (GET_image sampleGunzip True
        (Map.empty(newId sampleEnv \<mapsto> uploadDoc sampleGzip sampleEnv smallPng))
        (''/api/image/'' @ newId sampleEnv)) = 200 \<and>
     header (GET_image sampleGunzip True
        (Map.empty(newId sampleEnv \<mapsto> uploadDoc sampleGzip sampleEnv smallPng))
        (''/api/image/'' @ newId sampleEnv)) ''Cache-Control'' = Some ''public, max-age=31536000'' \<and>
     body (GET_image sampleGunzip True
        (Map.empty(newId sampleEnv \<mapsto> uploadDoc sampleGzip sampleEnv smallPng))
        (''/api/image/'' @ newId sampleEnv)) =
       (if isCompressed (uploadDoc sampleGzip sampleEnv smallPng)
           then (case sampleGunzip (chunks (uploadDoc sampleGzip sampleEnv smallPng)) of
                   None \<Rightarrow> BrokenStream | Some b \<Rightarrow> Bytes b)
           else Bytes (chunks (uploadDoc sampleGzip sampleEnv smallPng)))"
    by blast
  show ?thesis
    unfolding small_upload snd_conv
    using a b 1 2 3 c by simp
qed

section \<open>Listing the properties\<close>

text \<open>
  Claim C8. \<^verbatim>\<open>GET /api/properties\<close> never fails its caller: it always answers with
  status 200, and with the empty array when connecting or querying fails.
\<close>

theorem C8_list_never_fails:
  "status (GET_properties env coll) = 200 \<and>
   ((\<exists>e. dbConnect env = Rejected e) \<or> (\<exists>e. Property_find_sorted env coll = Rejected e)
      \<longrightarrow> body (GET_properties env coll) = [])"
  by (auto simp: GET_properties_def split: await.splits)

theorem C8_list_never_fails_witness:
  "dbConnect downEnv = Rejected ''Database connection failed'' \<and>
   status (GET_properties downEnv [sampleListing ''a'' 1]) = 200 \<and>
   body (GET_properties downEnv [sampleListing ''a'' 1]) = []"
proof -
  have r: "dbConnect downEnv = Rejected ''Database connection failed''"
    by (simp add: dbConnect_def downEnv_def)
  with C8_list_never_fails [of downEnv "[sampleListing ''a'' 1]"] show ?thesis by blast
qed

lemma GET_properties_up:
  assumes "dbConnect env = Resolved ()" and "queryOk env"
  shows "body (GET_properties env coll) = sort_key (\<lambda>p. - int (createdAt p)) coll"
  using assms by (simp add: GET_properties_def Property_find_sorted_def)

text \<open>
  Claim C9. When the database answers, the listings come back ordered by
  \<^verbatim>\<open>createdAt\<close> descending; they are the listings of the collection, and the
  order of their timestamps does not depend on the order in which they were inserted.
\<close>

theorem C9_list_newest_first:
  assumes "dbConnect env = Resolved ()" and "queryOk env"
  shows "sorted_wrt (\<lambda>a b. createdAt a \<ge> createdAt b) (body (GET_properties env coll)) \<and>
         mset (body (GET_properties env coll)) = mset coll \<and>
         (\<forall>coll'. mset coll' = mset coll \<longrightarrow>
            map createdAt (body (GET_properties env coll')) =
            map createdAt (body (GET_properties env coll)))"
proof -
  let ?k = "\<lambda>p::Property. - int (createdAt p)"
  have s: "sorted (map ?k (sort_key ?k c))" for c by (rule sorted_sort_key)
  have 1: "sorted_wrt (\<lambda>a b. createdAt a \<ge> createdAt b) (sort_key ?k coll)"
    using s [of coll] by (simp add: sorted_map)
  have 3: "map createdAt (sort_key ?k c') = map createdAt (sort_key ?k coll)"
    if m: "mset c' = mset coll" for c'
  proof -
    have "mset (map ?k (sort_key ?k c')) = mset (map ?k (sort_key ?k coll))"
      using m by simp
    with s [of c'] s [of coll]
    have "map ?k (sort_key ?k c') = map ?k (sort_key ?k coll)"
      by (metis properties_for_sort)
    then have "map (\<lambda>x. nat (- x)) (map ?k (sort_key ?k c')) =
               map (\<lambda>x. nat (- x)) (map ?k (sort_key ?k coll))" by simp
    then show ?thesis by (simp add: comp_def)
  qed
  have 2: "mset (sort_key ?k coll) = mset coll" by simp
  show ?thesis
    unfolding GET_properties_up [OF assms] by (intro conjI allI impI 1 2 3)
qed

theorem C9_list_newest_first_witness:
  "dbConnect upEnv = Resolved () \<and> queryOk upEnv \<and>
   map createdAt (body (GET_properties upEnv
      [sampleListing ''a'' 1, sampleListing ''b'' 3, sampleListing ''c'' 2])) = [3, 2, 1] \<and>
   map ident (body (GET_properties upEnv
      [sampleListing ''a'' 1, sampleListing ''b'' 3, sampleListing ''c'' 2])) = [''b'', ''c'', ''a''] \<and>
   sorted_wrt (\<lambda>a b. createdAt a \<ge> createdAt b) (body (GET_properties upEnv
      [sampleListing ''a'' 1, sampleListing ''b'' 3, sampleListing ''c'' 2])) \<and>
   mset (body (GET_properties upEnv
      [sampleListing ''a'' 1, sampleListing ''b'' 3, sampleListing ''c'' 2])) =
     mset [sampleListing ''a'' 1, sampleListing ''b'' 3, sampleListing ''c'' 2] \<and>
   map createdAt (body (GET_properties upEnv
      [sampleListing ''c'' 2, sampleListing ''a'' 1, sampleListing ''b'' 3])) =
   map createdAt (body (GET_properties upEnv
      [sampleListing ''a'' 1, sampleListing ''b'' 3, sampleListing ''c'' 2]))"
proof -
  have c: "dbConnect upEnv = Resolved ()" by (simp add: dbConnect_def upEnv_def)
  have q: "queryOk upEnv" by (simp add: upEnv_def)
  have t: "createdAt (sampleListing i n) = n" "ident (sampleListing i n) = i" for i n
    by (simp_all add: sampleListing_def)
  have m: "mset [sampleListing ''c'' 2, sampleListing ''a'' 1, sampleListing ''b'' 3] =
           mset [sampleListing ''a'' 1, sampleListing ''b'' 3, sampleListing ''c'' 2]"
    by simp
  have v: "body (GET_properties upEnv
      [sampleListing ''a'' 1, sampleListing ''b'' 3, sampleListing ''c'' 2]) =
      [sampleListing ''b'' 3, sampleListing ''c'' 2, sampleListing ''a'' 1]"
    unfolding GET_properties_up [OF c q] by (simp add: t)
  from C9_list_newest_first [OF c q,
      of "[sampleListing ''a'' 1, sampleListing ''b'' 3, sampleListing ''c'' 2]"] m c q
  show ?thesis
    unfolding v by (simp add: t)
qed

section \<open>Creating a listing\<close>

lemma POST_properties_connect_fails:
  assumes "dbConnect env = Rejected e"
  shows "POST_properties env coll \<lparr>payload = d, bodyUsed = False\<rparr> =
           (Resolved \<lparr>status = 200, headers = [], body = mockProperty env d\<rparr>, coll)"
  using assms by (simp add: POST_properties_def POST_properties_try_def req_json_def)

lemma mockProperty_fields:
  "ident (mockProperty env d) = ''mock_'' @ decimal (clock env 0) \<and>
   name (mockProperty env d) = name d \<and> price (mockProperty env d) = price d \<and>
   beds (mockProperty env d) = beds d \<and> baths (mockProperty env d) = baths d \<and>
   area (mockProperty env d) = area d"
  by (simp add: mockProperty_def withId_def)

lemma POST_properties_create_fails:
  assumes "dbConnect env = Resolved ()" and "\<not> PropertySchema d \<or> \<not> queryOk env"
  shows "POST_properties env coll \<lparr>payload = d, bodyUsed = False\<rparr> =
           (Rejected ''Body is unusable'', coll)"
  using assms
  by (auto simp: POST_properties_def POST_properties_try_def req_json_def Property_create_def)

lemma POST_properties_created:
  assumes "dbConnect env = Resolved ()" and "PropertySchema d" and "queryOk env"
  shows "POST_properties env coll \<lparr>payload = d, bodyUsed = False\<rparr> =
           (Resolved \<lparr>status = 200, headers = [],
                      body = withId (createId env) (createdAt d) d\<rparr>,
            coll @ [withId (createId env) (createdAt d) d])"
  using assms
  by (simp add: POST_properties_def POST_properties_try_def req_json_def Property_create_def
      Let_def)

lemma createOnServer_result:
  assumes "createOnServer denv coll d = Resolved res" and "body res = Some p"
  shows "\<exists>i t. p = withId i t d"
proof (cases "dbConnect denv")
  case (Rejected e)
  from assms have "p = mockProperty denv d"
    unfolding createOnServer_def POST_properties_connect_fails [OF Rejected]
    by (auto simp: routeResponse_def)
  then show ?thesis unfolding mockProperty_def by blast
next
  case (Resolved u)
  then have c: "dbConnect denv = Resolved ()" by simp
  show ?thesis
  proof (cases "PropertySchema d \<and> queryOk denv")
    case True
    with assms have "p = withId (createId denv) (createdAt d) d"
      unfolding createOnServer_def
      by (auto simp: POST_properties_created [OF c] routeResponse_def)
    then show ?thesis by blast
  next
    case False
    then have "\<not> PropertySchema d \<or> \<not> queryOk denv" by simp
    from assms show ?thesis
      unfolding createOnServer_def POST_properties_create_fails [OF c \<open>\<not> PropertySchema d \<or> \<not> queryOk denv\<close>]
      by (auto simp: routeResponse_def)
  qed
qed

section \<open>Submitting the form\<close>

lemma no_files_no_ids:
  assumes "List.map_filter (\<lambda>x. x) files = []"
  shows "uploadImages env files = Resolved []"
  using assms by (simp add: uploadImages_def)

lemma handleSubmit_posted:
  assumes "posted (handleSubmit env st) = Some d"
  shows "\<exists>ids. uploadImages env (form_files (form st)) = Resolved ids \<and>
               d = composeProperty env st ids"
  using assms
  by (auto simp: handleSubmit_def Let_def split: await.splits if_splits option.splits)

lemma handleSubmit_uploaded:
  assumes "uploadImages env (form_files (form st)) = Resolved ids"
  shows "posted (handleSubmit env st) = Some (composeProperty env st ids)"
  using assms
  by (auto simp: handleSubmit_def Let_def split: await.splits if_splits option.splits)

lemma handleSubmit_result:
  assumes "propertyResult (handleSubmit env st) = Some p"
  shows "\<exists>ids res. posted (handleSubmit env st) = Some (composeProperty env st ids) \<and>
            fetchCreate env (composeProperty env st ids) = Resolved res \<and> body res = Some p"
  using assms
  by (auto simp: handleSubmit_def Let_def split: await.splits if_splits option.splits)

lemma composeProperty_coordinates:
  "(lat (composeProperty env st ids), lng (composeProperty env st ids)) = resolveCoordinates env st"
  by (simp add: composeProperty_def Let_def split: prod.splits)

lemma composeProperty_images:
  "images (composeProperty env st ids) = (if ids = [] then placeholders else ids)"
  by (simp add: composeProperty_def Let_def split: prod.splits)

lemma withId_coordinates: "lat (withId i t d) = lat d \<and> lng (withId i t d) = lng d"
  by (simp add: withId_def)

lemma sample_posted:
  "posted (handleSubmit (sampleClient denv geo) st) \<noteq> None" if "form_files (form st) = []"
  using that
  by (simp add: handleSubmit_uploaded [of _ _ "[]"] uploadImages_def)

lemma picked_created:
  "\<exists>p. propertyResult (handleSubmit (sampleClient upEnv geo) pickedPage) = Some p"
proof -
  let ?env = "sampleClient upEnv geo"
  let ?d = "composeProperty ?env pickedPage []"
  have c: "dbConnect upEnv = Resolved ()" by (simp add: dbConnect_def upEnv_def)
  have q: "queryOk upEnv" by (simp add: upEnv_def)
  have u: "uploadImages ?env (form_files (form pickedPage)) = Resolved []"
    by (simp add: uploadImages_def pickedPage_def sampleForm_def)
  have v: "PropertySchema ?d"
    by (simp add: PropertySchema_def composeProperty_def Let_def pickedPage_def sampleForm_def
        ascii_def split: prod.splits)
  have e: "fetchCreate ?env = createOnServer upEnv []" by (simp add: sampleClient_def)
  have f: "fetchCreate ?env ?d = Resolved \<lparr>status = 200, headers = [],
        body = Some (withId (createId upEnv) (createdAt ?d) ?d)\<rparr>"
    unfolding e
    by (simp add: createOnServer_def POST_properties_created [OF c v q] routeResponse_def)
  have l: "fetchList ?env = Resolved []" by (simp add: sampleClient_def)
  show ?thesis
    by (simp add: handleSubmit_def u f l ok_def Let_def)
qed

text \<open>
  Claim C7. When the uploads of a submission collect no image identifier, as when no
  file was selected, the listing that is composed and posted has the images
  \<^verbatim>\<open>["placeholder1", "placeholder2", "placeholder3"]\<close>, in this order.
\<close>

theorem C7_placeholders_when_no_images:
  assumes "uploadImages env (form_files (form st)) = Resolved []"
  shows "\<exists>d. posted (handleSubmit env st) = Some d \<and>
             images d = [''placeholder1'', ''placeholder2'', ''placeholder3'']"
  unfolding handleSubmit_uploaded [OF assms]
  by (simp add: composeProperty_images placeholders_def)

theorem C7_placeholders_when_no_images_witness:
  "form_files (form samplePage) = [] \<and>
   uploadImages (sampleClient upEnv (Resolved [])) (form_files (form samplePage)) = Resolved [] \<and>
   (\<exists>d. posted (handleSubmit (sampleClient upEnv (Resolved [])) samplePage) = Some d \<and>
        images d = [''placeholder1'', ''placeholder2'', ''placeholder3''])"
proof -
  have f: "form_files (form samplePage) = []" by (simp add: samplePage_def sampleForm_def)
  then have u: "uploadImages (sampleClient upEnv (Resolved [])) (form_files (form samplePage))
      = Resolved []"
    by (simp add: no_files_no_ids map_filter_simps)
  from f u C7_placeholders_when_no_images [OF u] show ?thesis by blast
qed

lemma trim_blank: "trim s = [] \<longleftrightarrow> (\<forall>c \<in> set s. isSpace c)"
proof -
  have "dropWhile isSpace (rev (dropWhile isSpace s)) = [] \<longleftrightarrow> dropWhile isSpace s = []"
  proof (cases "dropWhile isSpace s")
    case Nil
    show ?thesis unfolding Nil by simp
  next
    case (Cons x xs)
    then have "dropWhile isSpace s \<noteq> []" by simp
    from hd_dropWhile [OF this] have "\<not> isSpace x" unfolding Cons by simp
    then show ?thesis unfolding Cons by (auto simp: dropWhile_eq_Nil_conv)
  qed
  moreover have "trim s = [] \<longleftrightarrow> dropWhile isSpace (rev (dropWhile isSpace s)) = []"
    by (simp add: trim_def)
  moreover have "dropWhile isSpace s = [] \<longleftrightarrow> (\<forall>c \<in> set s. isSpace c)"
    by (rule dropWhile_eq_Nil_conv)
  ultimately show ?thesis by blast
qed

text \<open>
  Claim C6. In the listing a submission composes: a selected point other than the
  default \<open>(0, 0)\<close> gives the coordinates, whatever location text was typed; with
  no such point and a location text that is not blank, the first result of the
  geocoding search gives them, and they stay \<open>(0, 0)\<close> when the search finds nothing
  or fails; with no such point and a blank location text they stay \<open>(0, 0)\<close> too. The
  location text is blank when \<^verbatim>\<open>trim\<close> leaves nothing of it. The listing that \<^verbatim>\<open>POST /api/properties\<close> answers has the same
  coordinates.
\<close>

theorem C6_coordinate_resolution:
  assumes "posted (handleSubmit env st) = Some d"
  shows "(selectedLocation st \<noteq> (0, 0) \<longrightarrow> (lat d, lng d) = selectedLocation st) \<and>
         (selectedLocation st = (0, 0) \<and> trim (form_location (form st)) \<noteq> [] \<longrightarrow>
            (\<forall>g gs. fetchGeocode env (form_location (form st)) = Resolved (g # gs) \<longrightarrow>
                 (lat d, lng d) = g) \<and>
            (fetchGeocode env (form_location (form st)) = Resolved [] \<or>
             (\<exists>e. fetchGeocode env (form_location (form st)) = Rejected e) \<longrightarrow>
                 (lat d, lng d) = (0, 0))) \<and>
         (selectedLocation st = (0, 0) \<and> trim (form_location (form st)) = [] \<longrightarrow>
            (lat d, lng d) = (0, 0)) \<and>
         (\<forall>denv coll p. fetchCreate env = createOnServer denv coll \<and>
              propertyResult (handleSubmit env st) = Some p \<longrightarrow> lat p = lat d \<and> lng p = lng d)"
proof -
  from handleSubmit_posted [OF assms] obtain ids where d: "d = composeProperty env st ids"
    by blast
  have c: "(lat d, lng d) = resolveCoordinates env st"
    unfolding d by (rule composeProperty_coordinates)
  have 1: "(selectedLocation st \<noteq> (0, 0) \<longrightarrow> (lat d, lng d) = selectedLocation st) \<and>
         (selectedLocation st = (0, 0) \<and> trim (form_location (form st)) \<noteq> [] \<longrightarrow>
            (\<forall>g gs. fetchGeocode env (form_location (form st)) = Resolved (g # gs) \<longrightarrow>
                 (lat d, lng d) = g) \<and>
            (fetchGeocode env (form_location (form st)) = Resolved [] \<or>
             (\<exists>e. fetchGeocode env (form_location (form st)) = Rejected e) \<longrightarrow>
                 (lat d, lng d) = (0, 0))) \<and>
         (selectedLocation st = (0, 0) \<and> trim (form_location (form st)) = [] \<longrightarrow>
            (lat d, lng d) = (0, 0))"
    unfolding c
    by (cases "selectedLocation st") (auto simp: resolveCoordinates_def Let_def)
  have 2: "lat p = lat d \<and> lng p = lng d"
    if f: "fetchCreate env = createOnServer denv coll"
      and p: "propertyResult (handleSubmit env st) = Some p" for denv coll p
  proof -
    from handleSubmit_result [OF p] assms obtain res where
      "fetchCreate env d = Resolved res" "body res = Some p" by auto
    with f createOnServer_result [of denv coll d res p] obtain i t where "p = withId i t d"
      by auto
    then show ?thesis by (simp add: withId_coordinates)
  qed
  from 1 2 show ?thesis by blast
qed

theorem C6_coordinate_resolution_witness:
  "(\<exists>d p. posted (handleSubmit (sampleClient upEnv (Resolved [(6.69, -1.62)])) pickedPage) = Some d
        \<and> lat d = 5.55 \<and> lng d = -0.20
        \<and> propertyResult (handleSubmit (sampleClient upEnv (Resolved [(6.69, -1.62)])) pickedPage) = Some p
        \<and> lat p = 5.55 \<and> lng p = -0.20) \<and>
   (\<exists>d. posted (handleSubmit (sampleClient upEnv (Resolved [(6.69, -1.62), (1, 1)])) typedPage) = Some d
        \<and> lat d = 6.69 \<and> lng d = -1.62) \<and>
   (\<exists>d. posted (handleSubmit (sampleClient upEnv (Resolved [])) typedPage) = Some d
        \<and> lat d = 0 \<and> lng d = 0) \<and>
   (\<exists>d. posted (handleSubmit (sampleClient upEnv (Rejected ''Failed to fetch'')) typedPage) = Some d
        \<and> lat d = 0 \<and> lng d = 0) \<and>
   trim (form_location (form blankPage)) = [] \<and>
   (\<exists>d. posted (handleSubmit (sampleClient upEnv (Resolved [(6.69, -1.62)])) blankPage) = Some d
        \<and> lat d = 0 \<and> lng d = 0)"
proof -
  have p: "form_files (form pickedPage) = []" "selectedLocation pickedPage = (5.55, -0.20)"
    by (simp_all add: pickedPage_def sampleForm_def)
  have t: "form_files (form typedPage) = []" "selectedLocation typedPage = (0, 0)"
    "form_location (form typedPage) = ascii ''Kumasi''"
    by (simp_all add: typedPage_def sampleForm_def)
  have k: "trim (ascii ''Kumasi'') \<noteq> []" by (simp add: trim_def isSpace_def ascii_def)
  have b: "form_files (form blankPage) = []" "selectedLocation blankPage = (0, 0)"
    "trim (form_location (form blankPage)) = []"
    by (simp_all add: blankPage_def sampleForm_def trim_def isSpace_def)
  have g: "fetchGeocode (sampleClient denv geo) q = geo" for denv geo q
    by (simp add: sampleClient_def)
  have e: "fetchCreate (sampleClient denv geo) = createOnServer denv []" for denv geo
    by (simp add: sampleClient_def)
  have 1: "\<exists>d p. posted (handleSubmit (sampleClient upEnv (Resolved [(6.69, -1.62)])) pickedPage) = Some d
        \<and> lat d = 5.55 \<and> lng d = -0.20
        \<and> propertyResult (handleSubmit (sampleClient upEnv (Resolved [(6.69, -1.62)])) pickedPage) = Some p
        \<and> lat p = 5.55 \<and> lng p = -0.20"
  proof -
    from sample_posted [OF p(1)] obtain d where
      d: "posted (handleSubmit (sampleClient upEnv (Resolved [(6.69, -1.62)])) pickedPage) = Some d"
      by blast
    from picked_created obtain r where
      r: "propertyResult (handleSubmit (sampleClient upEnv (Resolved [(6.69, -1.62)])) pickedPage) = Some r"
      by blast
    note c = C6_coordinate_resolution [OF d]
    from c p(2) have a: "lat d = 5.55 \<and> lng d = -0.20" by simp
    from c r e have "lat r = lat d \<and> lng r = lng d" by blast
    with a d r show ?thesis by auto
  qed
  have 2: "\<exists>d. posted (handleSubmit (sampleClient upEnv (Resolved [(6.69, -1.62), (1, 1)])) typedPage) = Some d
        \<and> lat d = 6.69 \<and> lng d = -1.62"
  proof -
    from sample_posted [OF t(1)] obtain d where
      d: "posted (handleSubmit (sampleClient upEnv (Resolved [(6.69, -1.62), (1, 1)])) typedPage) = Some d"
      by blast
    from C6_coordinate_resolution [OF d] t k have "lat d = 6.69 \<and> lng d = -1.62"
      by (simp add: g)
    with d show ?thesis by blast
  qed
  have 3: "\<exists>d. posted (handleSubmit (sampleClient upEnv geo) typedPage) = Some d
        \<and> lat d = 0 \<and> lng d = 0" if "geo = Resolved [] \<or> (\<exists>e. geo = Rejected e)" for geo
  proof -
    from sample_posted [OF t(1)] obtain d where
      d: "posted (handleSubmit (sampleClient upEnv geo) typedPage) = Some d"
      by blast
    from C6_coordinate_resolution [OF d] t k that have "lat d = 0 \<and> lng d = 0"
      by (simp add: g)
    with d show ?thesis by blast
  qed
  have 4: "\<exists>d. posted (handleSubmit (sampleClient upEnv (Resolved [(6.69, -1.62)])) blankPage) = Some d
        \<and> lat d = 0 \<and> lng d = 0"
  proof -
    from sample_posted [OF b(1)] obtain d where
      d: "posted (handleSubmit (sampleClient upEnv (Resolved [(6.69, -1.62)])) blankPage) = Some d"
      by blast
    from C6_coordinate_resolution [OF d] b have "lat d = 0 \<and> lng d = 0" by simp
    with d show ?thesis by blast
  qed
  from 1 2 3 [of "Resolved []"] 3 [of "Rejected ''Failed to fetch''"] 4 b(3)
  show ?thesis by blast
qed

lemma decimal_sample: "decimal 1700000000000 = ''1700000000000''"
  by (simp add: decimal.simps)

text \<open>
  Claim C3 says that a failed create still yields a mock listing. That is what the
  route does when \<^verbatim>\<open>dbConnect\<close> throws, before the body is read. When
  \<^verbatim>\<open>Property.create\<close> throws, the \<^verbatim>\<open>catch\<close> calls \<^verbatim>\<open>req.json()\<close> on a
  body that the \<^verbatim>\<open>try\<close> has consumed: the handler rejects, the page gets a 500
  and alerts, and no listing is yielded. Here the form has no location, which the
  schema rejects.
\<close>

theorem C3_rejected_create_yields_no_listing:
  "dbConnect upEnv = Resolved () \<and>
   posted (handleSubmit (sampleClient upEnv (Resolved [])) samplePage)
     = Some (composeProperty (sampleClient upEnv (Resolved [])) samplePage []) \<and>
   \<not> PropertySchema (composeProperty (sampleClient upEnv (Resolved [])) samplePage []) \<and>
   fst (POST_properties upEnv []
     \<lparr>payload = composeProperty (sampleClient upEnv (Resolved [])) samplePage [],
      bodyUsed = False\<rparr>) = Rejected ''Body is unusable'' \<and>
   propertyResult (handleSubmit (sampleClient upEnv (Resolved [])) samplePage) = None \<and>
   alert (handleSubmit (sampleClient upEnv (Resolved [])) samplePage)
     = Some ''Failed to create property''"
proof -
  let ?env = "sampleClient upEnv (Resolved [])"
  let ?d = "composeProperty ?env samplePage []"
  have c: "dbConnect upEnv = Resolved ()" by (simp add: dbConnect_def upEnv_def)
  have u: "uploadImages ?env (form_files (form samplePage)) = Resolved []"
    by (simp add: uploadImages_def samplePage_def sampleForm_def)
  have v: "\<not> PropertySchema ?d"
    by (simp add: PropertySchema_def composeProperty_def Let_def samplePage_def sampleForm_def
        split: prod.splits)
  then have w: "\<not> PropertySchema ?d \<or> \<not> queryOk upEnv" by simp
  note r = POST_properties_create_fails [OF c w, of "[]"]
  have e: "fetchCreate (sampleClient denv geo) = createOnServer denv []" for denv geo
    by (simp add: sampleClient_def)
  have f: "fetchCreate ?env ?d = Resolved \<lparr>status = 500, headers = [], body = None\<rparr>"
    unfolding e by (simp add: createOnServer_def r routeResponse_def)
  have h: "handleSubmit ?env samplePage =
      \<lparr>posted = Some ?d, propertyResult = None, refreshed = None,
       alert = Some ''Failed to create property''\<rparr>"
    by (simp add: handleSubmit_def u f ok_def Let_def)
  show ?thesis
    unfolding h r using c v by simp
qed

text \<open>The same submission while the database cannot be reached: the mock listing.\<close>

lemma mock_when_database_is_down:
  "propertyResult (handleSubmit (sampleClient downEnv (Resolved [])) samplePage) =
     Some (withId ''mock_1700000000000'' 1700000000001
        (composeProperty (sampleClient downEnv (Resolved [])) samplePage []))"
proof -
  let ?env = "sampleClient downEnv (Resolved [])"
  let ?d = "composeProperty ?env samplePage []"
  have c: "dbConnect downEnv = Rejected ''Database connection failed''"
    by (simp add: dbConnect_def downEnv_def)
  have u: "uploadImages ?env (form_files (form samplePage)) = Resolved []"
    by (simp add: uploadImages_def samplePage_def sampleForm_def)
  have m: "mockProperty downEnv ?d = withId ''mock_1700000000000'' 1700000000001 ?d"
    by (simp add: mockProperty_def downEnv_def decimal_sample)
  have e: "fetchCreate (sampleClient denv geo) = createOnServer denv []" for denv geo
    by (simp add: sampleClient_def)
  have f: "fetchCreate ?env ?d = Resolved \<lparr>status = 200, headers = [], body = Some (mockProperty downEnv ?d)\<rparr>"
    unfolding e
    by (simp add: createOnServer_def POST_properties_connect_fails [OF c] routeResponse_def)
  have l: "fetchList ?env = Resolved []" by (simp add: sampleClient_def)
  show ?thesis
    by (simp add: handleSubmit_def u f l ok_def Let_def m)
qed

end
